theory Spec2Isabelle
  imports Complex_Main "HOL-Library.Multiset"
begin

section \<open>JavaScript strings\<close>

text \<open>
  A JavaScript string is modelled as a \<^typ>\<open>string\<close>, one \<^typ>\<open>char\<close> per code unit
  below 256. The character classes are those of the regular expressions of the
  source: \<^verbatim>\<open>\d\<close>, \<^verbatim>\<open>\s\<close> (tab, line feed, vertical tab, form feed, carriage
  return, space, no-break space) and \<^verbatim>\<open>\w\<close>.
\<close>

definition code :: "char \<Rightarrow> int" where
  "code c = of_char c"

definition isDigit :: "char \<Rightarrow> bool" where
  "isDigit c = (48 \<le> code c \<and> code c \<le> 57)"

definition isSpace :: "char \<Rightarrow> bool" where
  "isSpace c = ((9 \<le> code c \<and> code c \<le> 13) \<or> code c = 32 \<or> code c = 160)"

definition isWordChar :: "char \<Rightarrow> bool" where
  "isWordChar c = ((48 \<le> code c \<and> code c \<le> 57) \<or> (65 \<le> code c \<and> code c \<le> 90)
     \<or> code c = 95 \<or> (97 \<le> code c \<and> code c \<le> 122))"

definition lowerChar :: "char \<Rightarrow> char" where
  "lowerChar c = (if (65 \<le> code c \<and> code c \<le> 90)
       \<or> (192 \<le> code c \<and> code c \<le> 222 \<and> code c \<noteq> 215)
     then char_of (code c + 32) else c)"

definition toLowerCase :: "string \<Rightarrow> string" where
  "toLowerCase s = map lowerChar s"

fun startsWith :: "string \<Rightarrow> string \<Rightarrow> bool" where
  "startsWith s [] = True"
| "startsWith [] (c # cs) = False"
| "startsWith (x # xs) (c # cs) = (x = c \<and> startsWith xs cs)"

text \<open>\<^verbatim>\<open>s.includes(t)\<close>: \<open>t\<close> occurs in \<open>s\<close> as a contiguous substring.\<close>

fun includes_str :: "string \<Rightarrow> string \<Rightarrow> bool" where
  "includes_str [] t = (t = [])"
| "includes_str (x # xs) t = (startsWith (x # xs) t \<or> includes_str xs t)"

definition trim :: "string \<Rightarrow> string" where
  "trim s = rev (dropWhile isSpace (rev (dropWhile isSpace s)))"

text \<open>
  \<^verbatim>\<open>s.split(/\s+/)\<close>: the pieces between maximal runs of white space. A leading
  or trailing run leaves an empty piece at that end, and the empty string gives
  one empty piece.
\<close>

function splitSpaces :: "string \<Rightarrow> string list" where
  "splitSpaces [] = [[]]"
| "splitSpaces (c # cs) =
     (if isSpace c then [] # splitSpaces (dropWhile isSpace cs)
      else (case splitSpaces cs of
              [] \<Rightarrow> [[c]]
            | w # ws \<Rightarrow> (c # w) # ws))"
  by pat_completeness auto
termination
  by (relation "measure length") (auto simp: less_Suc_eq_le length_dropWhile_le)

text \<open>\<^verbatim>\<open>ws.join(sep)\<close>.\<close>

fun join :: "string \<Rightarrow> string list \<Rightarrow> string" where
  "join sep [] = []"
| "join sep [w] = w"
| "join sep (w # v # ws) = w @ sep @ join sep (v # ws)"

text \<open>
  \<^verbatim>\<open>parseInt\<close> on a string of decimal digits. The value is exact; the source
  computes in double precision, which is exact for integers below \<open>2 ^ 53\<close>.
\<close>

definition digitVal :: "char \<Rightarrow> nat" where
  "digitVal c = nat (code c - 48)"

definition parseInt :: "string \<Rightarrow> nat" where
  "parseInt ds = foldl (\<lambda>n c. 10 * n + digitVal c) 0 ds"

text \<open>\<^verbatim>\<open>[...new Set(words)]\<close>: the first occurrence of each element, in order.\<close>

fun dedupe :: "'a list \<Rightarrow> 'a list \<Rightarrow> 'a list" where
  "dedupe seen [] = []"
| "dedupe seen (x # xs) =
     (if x \<in> set seen then dedupe seen xs else x # dedupe (x # seen) xs)"

section \<open>Regular expressions\<close>

text \<open>
  The regular expressions of the source are built from literals (matched without
  regard to case where the pattern carries the \<^verbatim>\<open>i\<close> flag, which is every
  pattern with a letter in it), \<^verbatim>\<open>\d+\<close>, \<^verbatim>\<open>\s*\<close>, \<^verbatim>\<open>\s+\<close>, sequence,
  alternative, the optional \<^verbatim>\<open>?\<close> and the word boundary \<^verbatim>\<open>\b\<close>. Capture groups
  do not change what is matched and are left out.

  A position in the subject is a pair of the text before it, reversed, and the
  text after it. \<open>rmatch\<close> returns the positions at which a match starting at the
  given position may end, in the order in which a backtracking matcher tries
  them (greedy quantifiers first, alternatives left to right): the head of the
  list is where the match of JavaScript ends.
\<close>

datatype cls = Digit | Space

datatype rx =
    Lit string
  | Plus cls
  | Star cls
  | Seq rx rx
  | Alt rx rx
  | Opt rx
  | WordB

type_synonym pos = "string \<times> string"

fun inCls :: "cls \<Rightarrow> char \<Rightarrow> bool" where
  "inCls Digit c = isDigit c"
| "inCls Space c = isSpace c"

fun litMatch :: "string \<Rightarrow> pos \<Rightarrow> pos list" where
  "litMatch [] p = [p]"
| "litMatch (l # ls) (bef, []) = []"
| "litMatch (l # ls) (bef, c # cs) =
     (if lowerChar c = lowerChar l then litMatch ls (c # bef, cs) else [])"

fun starMatch :: "cls \<Rightarrow> pos \<Rightarrow> pos list" where
  "starMatch k (bef, []) = [(bef, [])]"
| "starMatch k (bef, c # cs) =
     (if inCls k c then starMatch k (c # bef, cs) @ [(bef, c # cs)] else [(bef, c # cs)])"

fun plusMatch :: "cls \<Rightarrow> pos \<Rightarrow> pos list" where
  "plusMatch k (bef, []) = []"
| "plusMatch k (bef, c # cs) = (if inCls k c then starMatch k (c # bef, cs) else [])"

definition atWordBoundary :: "pos \<Rightarrow> bool" where
  "atWordBoundary p =
     ((case fst p of [] \<Rightarrow> False | b # _ \<Rightarrow> isWordChar b)
      \<noteq> (case snd p of [] \<Rightarrow> False | c # _ \<Rightarrow> isWordChar c))"

fun rmatch :: "rx \<Rightarrow> pos \<Rightarrow> pos list" where
  "rmatch (Lit l) p = litMatch l p"
| "rmatch (Plus k) p = plusMatch k p"
| "rmatch (Star k) p = starMatch k p"
| "rmatch (Seq a b) p = concat (map (rmatch b) (rmatch a p))"
| "rmatch (Alt a b) p = rmatch a p @ rmatch b p"
| "rmatch (Opt a) p = rmatch a p @ [p]"
| "rmatch WordB p = (if atWordBoundary p then [p] else [])"

text \<open>The text matched at a position, if the pattern matches there.\<close>

definition matchAt :: "rx \<Rightarrow> pos \<Rightarrow> string option" where
  "matchAt r p =
     (case rmatch r p of
        [] \<Rightarrow> None
      | q # _ \<Rightarrow> Some (take (length (snd p) - length (snd q)) (snd p)))"

text \<open>
  \<^verbatim>\<open>s.match(r)\<close> for a pattern without the \<^verbatim>\<open>g\<close> flag: the leftmost match.
\<close>

fun firstFrom :: "rx \<Rightarrow> string \<Rightarrow> string \<Rightarrow> string option" where
  "firstFrom r bef [] = matchAt r (bef, [])"
| "firstFrom r bef (c # cs) =
     (case matchAt r (bef, c # cs) of
        Some m \<Rightarrow> Some m
      | None \<Rightarrow> firstFrom r (c # bef) cs)"

definition matchFirst :: "rx \<Rightarrow> string \<Rightarrow> string option" where
  "matchFirst r s = firstFrom r [] s"

text \<open>
  \<^verbatim>\<open>s.match(r)\<close> for a pattern with the \<^verbatim>\<open>g\<close> flag: every match, left to right,
  each search starting where the last match ended (one further after an empty
  match). The counter is the number of characters still inside the last match.
  The empty list stands for \<^verbatim>\<open>null\<close>.
\<close>

fun allFrom :: "rx \<Rightarrow> nat \<Rightarrow> string \<Rightarrow> string \<Rightarrow> string list" where
  "allFrom r skip bef [] =
     (if skip = 0 then (case matchAt r (bef, []) of None \<Rightarrow> [] | Some m \<Rightarrow> [m]) else [])"
| "allFrom r skip bef (c # cs) =
     (if 0 < skip then allFrom r (skip - 1) (c # bef) cs
      else (case matchAt r (bef, c # cs) of
              None \<Rightarrow> allFrom r 0 (c # bef) cs
            | Some m \<Rightarrow> m # allFrom r (length m - 1) (c # bef) cs))"

definition matchAll :: "rx \<Rightarrow> string \<Rightarrow> string list" where
  "matchAll r s = allFrom r 0 [] s"

text \<open>\<^verbatim>\<open>s.replace(r, rep)\<close> for a pattern with the \<^verbatim>\<open>g\<close> flag.\<close>

fun replaceFrom :: "rx \<Rightarrow> string \<Rightarrow> nat \<Rightarrow> string \<Rightarrow> string \<Rightarrow> string" where
  "replaceFrom r rep skip bef [] =
     (if skip = 0 then (case matchAt r (bef, []) of None \<Rightarrow> [] | Some m \<Rightarrow> rep) else [])"
| "replaceFrom r rep skip bef (c # cs) =
     (if 0 < skip then replaceFrom r rep (skip - 1) (c # bef) cs
      else (case matchAt r (bef, c # cs) of
              None \<Rightarrow> c # replaceFrom r rep 0 (c # bef) cs
            | Some m \<Rightarrow>
                rep @ (if m = [] then [c] else [])
                  @ replaceFrom r rep (length m - 1) (c # bef) cs))"

definition replaceAll :: "rx \<Rightarrow> string \<Rightarrow> string \<Rightarrow> string" where
  "replaceAll r rep s = replaceFrom r rep 0 [] s"

section \<open>QueryProcessor: price range\<close>

record priceRange =
  minPrice :: "real option"
  maxPrice :: "real option"

text \<open>\<^verbatim>\<open>(rupees?|rs\.?)\<close>\<close>

definition rupeesRx :: rx where
  "rupeesRx = Alt (Seq (Lit ''rupee'') (Opt (Lit ''s''))) (Seq (Lit ''rs'') (Opt (Lit ''.'')))"

definition kThousandRx :: rx where
  "kThousandRx = Alt (Lit ''k'') (Lit ''thousand'')"

definition limitRx :: "string \<Rightarrow> rx" where
  "limitRx w = Seq (Lit w) (Seq (Star Space) (Seq (Plus Digit) (Seq (Star Space) (Opt kThousandRx))))"

definition pricePatterns :: "rx list" where
  "pricePatterns =
    [ Seq (Plus Digit) (Seq (Star Space)
        (Seq (Alt (Lit ''k'') (Alt (Lit ''thousand'') (Lit ''thousands'')))
          (Seq (Star Space) (Opt rupeesRx)))),
      Seq (Plus Digit) (Seq (Star Space)
        (Seq (Alt (Lit ''lakh'') (Lit ''lac'')) (Seq (Star Space) (Opt rupeesRx)))),
      Seq (Plus Digit) (Seq (Star Space) rupeesRx),
      limitRx ''under'',
      limitRx ''below'',
      limitRx ''upto'',
      limitRx ''max'' ]"

text \<open>The body of the inner loop of \<open>extractPriceRange\<close>, for one match.\<close>

definition priceOfMatch :: "priceRange \<Rightarrow> string \<Rightarrow> priceRange" where
  "priceOfMatch pr m =
     (case matchFirst (Plus Digit) m of
        None \<Rightarrow> pr
      | Some ds \<Rightarrow>
          (let value0 = real (parseInt ds);
               value =
                 (if includes_str (toLowerCase m) ''k'' \<or> includes_str (toLowerCase m) ''thousand''
                  then value0 * 1000
                  else if includes_str (toLowerCase m) ''lakh'' \<or> includes_str (toLowerCase m) ''lac''
                  then value0 * 100000
                  else value0)
           in if includes_str (toLowerCase m) ''under'' \<or> includes_str (toLowerCase m) ''below''
                 \<or> includes_str (toLowerCase m) ''upto'' \<or> includes_str (toLowerCase m) ''max''
              then pr\<lparr>maxPrice := Some value\<rparr>
              else pr\<lparr>maxPrice := Some value\<rparr>))"

definition extractPriceRange :: "string \<Rightarrow> priceRange" where
  "extractPriceRange query =
     foldl (\<lambda>pr pattern. foldl priceOfMatch pr (matchAll pattern query))
       \<lparr>minPrice = None, maxPrice = None\<rparr> pricePatterns"

section \<open>Product\<close>

text \<open>
  The numbers of the source are modelled as exact reals (ids as integers): the
  rounding of double precision is not modelled.
\<close>

text \<open>
  A metadata value is whatever JSON the caller sent: the source itself tells
  strings from other values with \<^verbatim>\<open>typeof v === "string"\<close>. \<open>JObject\<close>
  stands for any object or array. An object is the list of its entries in
  insertion order (keys that look like array indices are not modelled).
\<close>

datatype jsval = JString string | JNumber real | JBool bool | JNull | JObject

type_synonym jsobject = "(string \<times> jsval) list"

fun truthy :: "jsval \<Rightarrow> bool" where
  "truthy (JString s) = (s \<noteq> [])"
| "truthy (JNumber r) = (r \<noteq> 0)"
| "truthy (JBool b) = b"
| "truthy JNull = False"
| "truthy JObject = True"

text \<open>A JavaScript \<^verbatim>\<open>Map\<close>, and the entries of an object: keyed, in insertion order.\<close>

fun mapSet :: "('k \<times> 'v) list \<Rightarrow> 'k \<Rightarrow> 'v \<Rightarrow> ('k \<times> 'v) list" where
  "mapSet [] k v = [(k, v)]"
| "mapSet ((k', v') # m) k v = (if k' = k then (k, v) # m else (k', v') # mapSet m k v)"

definition mapGet :: "('k \<times> 'v) list \<Rightarrow> 'k \<Rightarrow> 'v option" where
  "mapGet m k = map_of m k"

definition mapDelete :: "('k \<times> 'v) list \<Rightarrow> 'k \<Rightarrow> ('k \<times> 'v) list" where
  "mapDelete m k = filter (\<lambda>e. fst e \<noteq> k) m"

text \<open>A JavaScript \<^verbatim>\<open>Set\<close>: its members in insertion order.\<close>

definition setAdd :: "'a list \<Rightarrow> 'a \<Rightarrow> 'a list" where
  "setAdd s x = (if x \<in> set s then s else s @ [x])"

definition setDelete :: "'a list \<Rightarrow> 'a \<Rightarrow> 'a list" where
  "setDelete s x = filter (\<lambda>y. y \<noteq> x) s"

text \<open>\<^verbatim>\<open>{ ...a, ...b }\<close>\<close>

definition spread :: "jsobject \<Rightarrow> jsobject \<Rightarrow> jsobject" where
  "spread a b = foldl (\<lambda>m e. mapSet m (fst e) (snd e)) a b"

text \<open>\<^verbatim>\<open>Object.values(o).filter((v) => typeof v === "string")\<close>\<close>

fun stringValues :: "jsobject \<Rightarrow> string list" where
  "stringValues [] = []"
| "stringValues ((k, JString s) # m) = s # stringValues m"
| "stringValues ((k, v) # m) = stringValues m"

record product =
  productId :: int
  title :: string
  description :: string
  brand :: string
  category :: string
  price :: real
  mrp :: real
  sellingPrice :: real
  rating :: real
  stock :: real
  metadata :: jsobject
  unitsSold :: real
  returnRate :: real
  reviewCount :: real
  complaintCount :: real
  discountPercentage :: real
  isLatest :: bool
  searchKeywords :: "string list"
  searchText :: string

text \<open>\<^verbatim>\<open>s.replace(/[^\w\s]/g, " ")\<close>\<close>

definition stripSpecial :: "string \<Rightarrow> string" where
  "stripSpecial s = map (\<lambda>c. if \<not> isWordChar c \<and> \<not> isSpace c then CHR '' '' else c) s"

text \<open>\<^verbatim>\<open>/^\d+$/.test(word)\<close>\<close>

definition allDigits :: "string \<Rightarrow> bool" where
  "allDigits w = (w \<noteq> [] \<and> list_all isDigit w)"

definition isKeyword :: "string \<Rightarrow> bool" where
  "isKeyword w = (2 < length w \<or> allDigits w)"

definition extractKeywords :: "string \<Rightarrow> string list" where
  "extractKeywords text =
     dedupe [] (filter isKeyword
       (splitSpaces (stripSpecial text)))"

definition updateSearchText :: "product \<Rightarrow> product" where
  "updateSearchText p =
     (let parts = [title p, description p, brand p, category p] @ stringValues (metadata p);
          text = toLowerCase (join '' '' parts)
      in p\<lparr>searchText := text, searchKeywords := extractKeywords text\<rparr>)"

text \<open>
  The argument of the constructor: every field may be missing. \<open>a || b\<close> takes
  \<open>b\<close> when \<open>a\<close> is missing, zero, empty or false. The fields that no modelled
  operation reads (currency, popularityScore) and the two that the constructor
  overwrites at once (searchKeywords, searchText) are left out.
\<close>

record productData =
  d_productId :: "int option"
  d_title :: "string option"
  d_description :: "string option"
  d_brand :: "string option"
  d_category :: "string option"
  d_price :: "real option"
  d_mrp :: "real option"
  d_sellingPrice :: "real option"
  d_rating :: "real option"
  d_stock :: "real option"
  d_metadata :: "jsobject option"
  d_unitsSold :: "real option"
  d_returnRate :: "real option"
  d_reviewCount :: "real option"
  d_complaintCount :: "real option"
  d_discountPercentage :: "real option"
  d_isLatest :: "bool option"

definition orStr :: "string option \<Rightarrow> string \<Rightarrow> string" where
  "orStr a b = (case a of None \<Rightarrow> b | Some s \<Rightarrow> if s = [] then b else s)"

definition orNum :: "real option \<Rightarrow> real \<Rightarrow> real" where
  "orNum a b = (case a of None \<Rightarrow> b | Some r \<Rightarrow> if r = 0 then b else r)"

definition newProduct :: "int \<Rightarrow> productData \<Rightarrow> product" where
  "newProduct pid d =
     (let p = \<lparr> productId = pid,
                title = orStr (d_title d) [],
                description = orStr (d_description d) [],
                brand = orStr (d_brand d) ''unknown'',
                category = orStr (d_category d) ''mobile'',
                price = orNum (d_price d) 0,
                mrp = orNum (d_mrp d) (orNum (d_price d) 0),
                sellingPrice = orNum (d_sellingPrice d) (orNum (d_price d) 0),
                rating = orNum (d_rating d) 0,
                stock = orNum (d_stock d) 0,
                metadata = (case d_metadata d of None \<Rightarrow> [] | Some m \<Rightarrow> m),
                unitsSold = orNum (d_unitsSold d) 0,
                returnRate = orNum (d_returnRate d) 0,
                reviewCount = orNum (d_reviewCount d) 0,
                complaintCount = orNum (d_complaintCount d) 0,
                discountPercentage = orNum (d_discountPercentage d) 0,
                isLatest = (case d_isLatest d of None \<Rightarrow> False | Some b \<Rightarrow> b),
                searchKeywords = [],
                searchText = [] \<rparr>;
          p' = (if 0 < mrp p \<and> price p < mrp p
                then p\<lparr>discountPercentage := ((mrp p - price p) / mrp p) * 100\<rparr>
                else p)
      in updateSearchText p')"

section \<open>ProductService\<close>

type_synonym index = "(string \<times> int list) list"

record catalog =
  products :: "(int \<times> product) list"
  categoryIndex :: index
  brandIndex :: index
  keywordIndex :: index
  nextProductId :: int

definition emptyCatalog :: catalog where
  "emptyCatalog = \<lparr> products = [], categoryIndex = [], brandIndex = [], keywordIndex = [],
     nextProductId = 1 \<rparr>"

text \<open>
  \<^verbatim>\<open>if (!idx.has(key)) idx.set(key, new Set()); idx.get(key).add(id);\<close>
\<close>

definition indexAdd :: "index \<Rightarrow> string \<Rightarrow> int \<Rightarrow> index" where
  "indexAdd idx key pid =
     (case mapGet idx key of
        None \<Rightarrow> mapSet idx key [pid]
      | Some ids \<Rightarrow> mapSet idx key (setAdd ids pid))"

text \<open>
  \<^verbatim>\<open>if (idx.has(key)) { idx.get(key).delete(id);
       if (idx.get(key).size === 0) idx.delete(key); }\<close>
\<close>

definition indexRemove :: "index \<Rightarrow> string \<Rightarrow> int \<Rightarrow> index" where
  "indexRemove idx key pid =
     (case mapGet idx key of
        None \<Rightarrow> idx
      | Some ids \<Rightarrow>
          (if setDelete ids pid = [] then mapDelete idx key
           else mapSet idx key (setDelete ids pid)))"

definition updateIndexes :: "catalog \<Rightarrow> product \<Rightarrow> catalog" where
  "updateIndexes st p =
     st\<lparr> categoryIndex := indexAdd (categoryIndex st) (toLowerCase (category p)) (productId p),
         brandIndex := indexAdd (brandIndex st) (toLowerCase (brand p)) (productId p),
         keywordIndex :=
           foldl (\<lambda>idx keyword. indexAdd idx keyword (productId p)) (keywordIndex st)
             (searchKeywords p) \<rparr>"

definition removeFromIndexes :: "catalog \<Rightarrow> product \<Rightarrow> catalog" where
  "removeFromIndexes st p =
     st\<lparr> categoryIndex := indexRemove (categoryIndex st) (toLowerCase (category p)) (productId p),
         brandIndex := indexRemove (brandIndex st) (toLowerCase (brand p)) (productId p),
         keywordIndex :=
           foldl (\<lambda>idx keyword. indexRemove idx keyword (productId p)) (keywordIndex st)
             (searchKeywords p) \<rparr>"

text \<open>
  \<open>addProduct\<close>: a missing (or zero) id is drawn from the counter; a given id at
  or above the counter moves the counter past it. Writing the data file has no
  effect on the catalog and is left out.
\<close>

definition assignId :: "catalog \<Rightarrow> int option \<Rightarrow> int \<times> catalog" where
  "assignId st given =
     (case given of
        None \<Rightarrow> (nextProductId st, st\<lparr>nextProductId := nextProductId st + 1\<rparr>)
      | Some i \<Rightarrow>
          (if i = 0 then (nextProductId st, st\<lparr>nextProductId := nextProductId st + 1\<rparr>)
           else if nextProductId st \<le> i then (i, st\<lparr>nextProductId := i + 1\<rparr>)
           else (i, st)))"

definition addProduct :: "catalog \<Rightarrow> productData \<Rightarrow> catalog \<times> product" where
  "addProduct st d =
     (let (pid, st1) = assignId st (d_productId d);
          p = newProduct pid d;
          st2 = st1\<lparr>products := mapSet (products st1) pid p\<rparr>
      in (updateIndexes st2 p, p))"

definition getProduct :: "catalog \<Rightarrow> int \<Rightarrow> product option" where
  "getProduct st pid = mapGet (products st) pid"

text \<open>
  \<open>updateProductMetadata\<close>: the product object is changed in place, so the
  catalog holds the changed product from the first assignment on. The order of
  the four steps is the order of the source.
\<close>

definition updateProductMetadata :: "catalog \<Rightarrow> int \<Rightarrow> jsobject \<Rightarrow> catalog \<times> product option" where
  "updateProductMetadata st pid md =
     (case mapGet (products st) pid of
        None \<Rightarrow> (st, None)
      | Some p0 \<Rightarrow>
          (let p1 = p0\<lparr>metadata := spread (metadata p0) md\<rparr>;
               p2 = updateSearchText p1;
               st1 = st\<lparr>products := mapSet (products st) pid p2\<rparr>;
               st2 = removeFromIndexes st1 p2;
               st3 = updateIndexes st2 p2
           in (st3, Some p2)))"

definition deleteProduct :: "catalog \<Rightarrow> int \<Rightarrow> catalog \<times> bool" where
  "deleteProduct st pid =
     (case mapGet (products st) pid of
        None \<Rightarrow> (st, False)
      | Some p \<Rightarrow>
          (let st1 = removeFromIndexes st p
           in (st1\<lparr>products := mapDelete (products st1) pid\<rparr>, True)))"

definition getAllProductsUnpaginated :: "catalog \<Rightarrow> product list" where
  "getAllProductsUnpaginated st = map snd (products st)"

text \<open>
  \<^verbatim>\<open>Array.from(ids).map((id) => products.get(id)).filter((p) => p !== undefined)\<close>
\<close>

definition lookupAll :: "catalog \<Rightarrow> int list \<Rightarrow> product list" where
  "lookupAll st ids = List.map_filter (\<lambda>i. mapGet (products st) i) ids"

definition getProductsByCategory :: "catalog \<Rightarrow> string \<Rightarrow> product list" where
  "getProductsByCategory st c =
     lookupAll st (case mapGet (categoryIndex st) (toLowerCase c) of None \<Rightarrow> [] | Some ids \<Rightarrow> ids)"

definition getProductsByBrand :: "catalog \<Rightarrow> string \<Rightarrow> product list" where
  "getProductsByBrand st b =
     lookupAll st (case mapGet (brandIndex st) (toLowerCase b) of None \<Rightarrow> [] | Some ids \<Rightarrow> ids)"

definition getProductsByKeyword :: "catalog \<Rightarrow> string \<Rightarrow> product list" where
  "getProductsByKeyword st k =
     lookupAll st (case mapGet (keywordIndex st) (toLowerCase k) of None \<Rightarrow> [] | Some ids \<Rightarrow> ids)"

text \<open>
  The invariant of the catalog as the specification words it: a product's id is
  filed under a key of an index exactly when the key is the product's current
  value for that index.
\<close>

definition filedUnder :: "index \<Rightarrow> int \<Rightarrow> string list" where
  "filedUnder idx pid = map fst (filter (\<lambda>e. pid \<in> set (snd e)) idx)"

definition mirrored :: "catalog \<Rightarrow> product \<Rightarrow> bool" where
  "mirrored st p =
     (set (filedUnder (categoryIndex st) (productId p)) = {toLowerCase (category p)}
      \<and> set (filedUnder (brandIndex st) (productId p)) = {toLowerCase (brand p)}
      \<and> set (filedUnder (keywordIndex st) (productId p)) = set (searchKeywords p))"

definition indexesMirror :: "catalog \<Rightarrow> bool" where
  "indexesMirror st = list_all (\<lambda>e. mirrored st (snd e)) (products st)"

section \<open>Edit distance\<close>

text \<open>
  The package \<^verbatim>\<open>leven\<close> computes the Levenshtein distance of two strings. It is
  modelled by the usual table, one row for each character of the first string:
  \<open>levStep\<close> fills a row from the row above (\<open>diag\<close> and \<open>up\<close>) and the entry to
  the left.
\<close>

fun levStep :: "char \<Rightarrow> string \<Rightarrow> int list \<Rightarrow> int \<Rightarrow> int list" where
  "levStep a (b # bs) (diag # up # rest) left =
     (let v = min (min (up + 1) (left + 1)) (diag + (if a = b then 0 else 1))
      in v # levStep a bs (up # rest) v)"
| "levStep a bs row left = []"

fun levRow :: "string \<Rightarrow> int list \<Rightarrow> char \<Rightarrow> int list" where
  "levRow b [] a = []"
| "levRow b (d # row) a = (d + 1) # levStep a b (d # row) (d + 1)"

definition leven :: "string \<Rightarrow> string \<Rightarrow> int" where
  "leven a b = (case rev (foldl (levRow b) [0 .. int (length b)] a) of [] \<Rightarrow> 0 | d # _ \<Rightarrow> d)"

section \<open>QueryProcessor\<close>

definition brands :: "string list" where
  "brands = [''iphone'', ''samsung'', ''oneplus'', ''xiaomi'', ''redmi'', ''oppo'', ''vivo'',
     ''realme'', ''nokia'']"

definition productTerms :: "string list" where
  "productTerms = [''phone'', ''mobile'', ''laptop'', ''headphone'', ''charger'', ''cover'',
     ''case'', ''screen'', ''guard'']"

definition HINGLISH_MAPPINGS :: "(string \<times> string) list" where
  "HINGLISH_MAPPINGS = [(''sasta'', ''cheap''), (''sastha'', ''cheap''), (''wala'', ''with''),
     (''mein'', ''in''), (''ka'', ''of''), (''ki'', ''of''), (''ke'', ''of''), (''se'', ''from''),
     (''par'', ''on'')]"

definition SPELLING_CORRECTIONS :: "(string \<times> string) list" where
  "SPELLING_CORRECTIONS = [(''ifone'', ''iphone''), (''ipone'', ''iphone''),
     (''sastha'', ''sasta''), (''samsung'', ''samsung''), (''oneplus'', ''oneplus'')]"

text \<open>\<^verbatim>\<open>new RegExp(`\\b${w}\\b`, "gi")\<close>\<close>

definition wholeWord :: "string \<Rightarrow> rx" where
  "wholeWord w = Seq WordB (Seq (Lit w) WordB)"

text \<open>
  The first part of \<open>correctSpelling\<close>: lower case, then every entry of the
  dictionary of known mistakes, in the order of its keys.
\<close>

definition knownCorrections :: "string \<Rightarrow> string" where
  "knownCorrections query =
     foldl (\<lambda>corrected e. replaceAll (wholeWord (fst e)) (snd e) corrected)
       (toLowerCase query) SPELLING_CORRECTIONS"

text \<open>One of the two \<^verbatim>\<open>for\<close> loops over a vocabulary, leaving at the first hit.\<close>

fun firstClose :: "string \<Rightarrow> string list \<Rightarrow> string option" where
  "firstClose word [] = None"
| "firstClose word (t # ts) =
     (let distance = leven word t
      in if distance \<le> 2 \<and> 0 < distance \<and> 3 < length word then Some t
         else firstClose word ts)"

definition correctWord :: "string \<Rightarrow> string" where
  "correctWord word =
     (case firstClose word brands of
        Some b \<Rightarrow> b
      | None \<Rightarrow> (case firstClose word productTerms of Some t \<Rightarrow> t | None \<Rightarrow> word))"

definition correctSpelling :: "string \<Rightarrow> string" where
  "correctSpelling query =
     join '' '' (map correctWord (splitSpaces (knownCorrections query)))"

definition translateHinglish :: "string \<Rightarrow> string" where
  "translateHinglish query =
     foldl (\<lambda>translated e. replaceAll (wholeWord (fst e)) (snd e) translated)
       (toLowerCase query) HINGLISH_MAPPINGS"

definition colors :: "string list" where
  "colors = [''red'', ''blue'', ''green'', ''yellow'', ''black'', ''white'', ''silver'', ''gold'',
     ''pink'', ''purple'', ''orange'', ''grey'', ''gray'', ''brown'', ''starlight'',
     ''cosmic orange'', ''deep blue'', ''sky blue'', ''space black'', ''space gray'']"

definition extractColor :: "string \<Rightarrow> string option" where
  "extractColor query =
     (let lowerQuery = toLowerCase query
      in find (\<lambda>color. includes_str lowerQuery (toLowerCase color)) colors)"

definition iphonePattern :: rx where
  "iphonePattern = Seq (Lit ''iphone'') (Seq (Star Space) (Seq (Plus Digit) (Seq (Star Space)
     (Opt (Alt (Lit ''pro'') (Alt (Lit ''max'') (Alt (Lit ''plus'') (Lit ''air''))))))))"

definition samsungPattern :: rx where
  "samsungPattern = Seq (Lit ''galaxy'') (Seq (Plus Space) (Seq (Lit ''s'') (Plus Digit)))"

definition numberPattern :: rx where
  "numberPattern = Seq WordB (Seq (Plus Digit) WordB)"

definition extractModel :: "string \<Rightarrow> string option" where
  "extractModel query =
     (case matchAll iphonePattern query of
        m # _ \<Rightarrow> Some (trim m)
      | [] \<Rightarrow>
          (case matchAll samsungPattern query of
             m # _ \<Rightarrow> Some (trim m)
           | [] \<Rightarrow> matchFirst numberPattern query))"

definition intentBrands :: "string list" where
  "intentBrands = [''iphone'', ''apple'', ''samsung'', ''oneplus'', ''xiaomi'', ''redmi'', ''oppo'',
     ''vivo'', ''realme'', ''nokia'']"

definition extractBrand :: "string \<Rightarrow> string option" where
  "extractBrand query =
     (let lowerQuery = toLowerCase query
      in case find (\<lambda>b. includes_str lowerQuery b) intentBrands of
           None \<Rightarrow> None
         | Some b \<Rightarrow> Some (if b = ''iphone'' then ''apple'' else b))"

datatype sortKind = Latest | PriceAsc | Rating

record filterBy =
  color :: "string option"
  model :: "string option"
  brand_f :: "string option"
  priceRange :: "priceRange option"

text \<open>
  \<open>processQuery\<close> returns the intent \<^verbatim>\<open>{}\<close> for a missing query, so the filters of
  an intent may be absent.
\<close>

record intent =
  sortBy :: "sortKind option"
  filterBy :: "filterBy option"
  searchTerms :: "string list"

record processedQuery =
  original :: string
  normalized :: string
  corrected :: string
  intent :: intent

definition filterKeywords :: "string list" where
  "filterKeywords = [''latest'', ''new'', ''cheap'', ''sasta'', ''best'', ''top'', ''red'', ''blue'',
     ''black'', ''white'', ''color'', ''rupees'', ''rs'', ''k'', ''thousand'', ''lakh'', ''under'',
     ''below'', ''upto'', ''max'']"

text \<open>A price, or \<^verbatim>\<open>null\<close>, taken as a condition.\<close>

definition truthyNum :: "real option \<Rightarrow> bool" where
  "truthyNum v = (case v of None \<Rightarrow> False | Some r \<Rightarrow> r \<noteq> 0)"

definition extractIntent :: "string \<Rightarrow> intent" where
  "extractIntent query =
     (let lowerQuery = toLowerCase query;
          s0 = None;
          s1 = (if includes_str lowerQuery ''latest'' \<or> includes_str lowerQuery ''new''
                   \<or> includes_str lowerQuery ''newest''
                then Some Latest else s0);
          s2 = (if includes_str lowerQuery ''cheap'' \<or> includes_str lowerQuery ''sasta''
                   \<or> includes_str lowerQuery ''sastha'' \<or> includes_str lowerQuery ''affordable''
                   \<or> includes_str lowerQuery ''budget''
                then Some PriceAsc else s1);
          s3 = (if includes_str lowerQuery ''best'' \<or> includes_str lowerQuery ''top''
                then Some Rating else s2);
          pr = extractPriceRange query;
          f = \<lparr> color = extractColor query,
                model = extractModel query,
                brand_f = extractBrand query,
                priceRange = (if truthyNum (minPrice pr) \<or> truthyNum (maxPrice pr)
                              then Some pr else None) \<rparr>
      in \<lparr> sortBy = s3,
           filterBy = Some f,
           searchTerms =
             filter (\<lambda>word. 2 < length word \<and> word \<notin> set filterKeywords)
               (splitSpaces (toLowerCase query)) \<rparr>)"

definition normalizeQuery :: "string \<Rightarrow> string" where
  "normalizeQuery query =
     (if query = [] then []
      else trim (replaceAll (Plus Space) '' '' (toLowerCase (stripSpecial query))))"

definition processQuery :: "string \<Rightarrow> processedQuery" where
  "processQuery query =
     (if query = []
      then \<lparr> original = [], normalized = [], corrected = [],
             intent = \<lparr> sortBy = None, filterBy = None, searchTerms = [] \<rparr> \<rparr>
      else (let normalized = normalizeQuery query;
                translated = translateHinglish normalized;
                corrected = correctSpelling translated
            in \<lparr> original = query, normalized = normalized, corrected = corrected,
                 intent = extractIntent corrected \<rparr>))"

section \<open>Errors\<close>

text \<open>
  The one exception the modelled code can raise is the \<^verbatim>\<open>TypeError\<close> of
  JavaScript: a property read on \<^verbatim>\<open>undefined\<close>, or a call of a method that the
  value does not have. A function that can raise returns \<open>error + 'a\<close>.
\<close>

datatype error = TypeError

definition bindE :: "error + 'a \<Rightarrow> ('a \<Rightarrow> error + 'b) \<Rightarrow> error + 'b" where
  "bindE m f = (case m of Inl e \<Rightarrow> Inl e | Inr x \<Rightarrow> f x)"

text \<open>\<^verbatim>\<open>xs.map(f)\<close> and \<^verbatim>\<open>xs.filter(f)\<close> for a callback that can raise.\<close>

fun mapE :: "('a \<Rightarrow> error + 'b) \<Rightarrow> 'a list \<Rightarrow> error + 'b list" where
  "mapE f [] = Inr []"
| "mapE f (x # xs) = bindE (f x) (\<lambda>y. bindE (mapE f xs) (\<lambda>ys. Inr (y # ys)))"

fun filterE :: "('a \<Rightarrow> error + bool) \<Rightarrow> 'a list \<Rightarrow> error + 'a list" where
  "filterE f [] = Inr []"
| "filterE f (x # xs) =
     bindE (f x) (\<lambda>keep. bindE (filterE f xs) (\<lambda>ys. Inr (if keep then x # ys else ys)))"

text \<open>\<^verbatim>\<open>v.toLowerCase()\<close>: only a string has the method.\<close>

fun lowerOf :: "jsval \<Rightarrow> error + string" where
  "lowerOf (JString s) = Inr (toLowerCase s)"
| "lowerOf v = Inl TypeError"

text \<open>\<^verbatim>\<open>o.key || ""\<close>\<close>

definition orEmpty :: "jsval option \<Rightarrow> jsval" where
  "orEmpty v = (case v of None \<Rightarrow> JString [] | Some x \<Rightarrow> if truthy x then x else JString [])"

text \<open>\<^verbatim>\<open>intent.filterBy\<close>, about to be read.\<close>

definition filtersOf :: "processedQuery \<Rightarrow> error + filterBy" where
  "filtersOf pq = (case filterBy (intent pq) of None \<Rightarrow> Inl TypeError | Some f \<Rightarrow> Inr f)"

text \<open>A string, or \<^verbatim>\<open>undefined\<close>, taken as a condition.\<close>

definition truthyStr :: "string option \<Rightarrow> bool" where
  "truthyStr v = (case v of None \<Rightarrow> False | Some s \<Rightarrow> s \<noteq> [])"

definition strOf :: "string option \<Rightarrow> string" where
  "strOf v = (case v of None \<Rightarrow> [] | Some s \<Rightarrow> s)"

section \<open>Array.prototype.sort\<close>

text \<open>
  The language leaves the order that \<^verbatim>\<open>sort\<close> produces to the engine when the
  comparator is not a consistent ordering. The model is what V8, the engine of
  Node.js, does with an array of fewer than 64 elements: it takes the run at the
  start of the array (ascending, or strictly descending and then reversed) and
  inserts every further element by binary search. For a comparator that is a
  consistent ordering every stable sort gives the same result, so there the
  model holds for arrays of any length. For a comparator that is not, the model
  says what the engine does with fewer than 64 elements only.
\<close>

function binarySearch :: "('a \<Rightarrow> 'a \<Rightarrow> real) \<Rightarrow> 'a \<Rightarrow> 'a list \<Rightarrow> nat \<Rightarrow> nat \<Rightarrow> nat" where
  "binarySearch cmp pivot xs left right =
     (if left < right
      then (let mid = left + (right - left) div 2
            in if cmp pivot (xs ! mid) < 0 then binarySearch cmp pivot xs left mid
               else binarySearch cmp pivot xs (mid + 1) right)
      else left)"
  by pat_completeness auto
termination
  by (relation "measure (\<lambda>(cmp, pivot, xs, left, right). right - left)") auto

definition insertPivot :: "('a \<Rightarrow> 'a \<Rightarrow> real) \<Rightarrow> 'a list \<Rightarrow> 'a \<Rightarrow> 'a list" where
  "insertPivot cmp xs pivot =
     (let left = binarySearch cmp pivot xs 0 (length xs)
      in take left xs @ pivot # drop left xs)"

fun runLength :: "('a \<Rightarrow> 'a \<Rightarrow> real) \<Rightarrow> bool \<Rightarrow> 'a \<Rightarrow> 'a list \<Rightarrow> nat" where
  "runLength cmp isDescending previous [] = 0"
| "runLength cmp isDescending previous (x # xs) =
     (if (if isDescending then 0 \<le> cmp x previous else cmp x previous < 0) then 0
      else Suc (runLength cmp isDescending x xs))"

fun countAndMakeRun :: "('a \<Rightarrow> 'a \<Rightarrow> real) \<Rightarrow> 'a list \<Rightarrow> 'a list \<times> 'a list" where
  "countAndMakeRun cmp (x0 # x1 # xs) =
     (let isDescending = (cmp x1 x0 < 0);
          n = runLength cmp isDescending x1 xs
      in (if isDescending then rev (x0 # x1 # take n xs) else x0 # x1 # take n xs, drop n xs))"
| "countAndMakeRun cmp xs = (xs, [])"

definition arraySort :: "('a \<Rightarrow> 'a \<Rightarrow> real) \<Rightarrow> 'a list \<Rightarrow> 'a list" where
  "arraySort cmp xs =
     (let (run, rest) = countAndMakeRun cmp xs in foldl (insertPivot cmp) run rest)"

section \<open>RankingEngine\<close>

definition RELEVANCE :: real where "RELEVANCE = 0.5"
definition QUALITY :: real where "QUALITY = 0.3"
definition POPULARITY :: real where "POPULARITY = 0.2"

definition TITLE_MATCH :: real where "TITLE_MATCH = 0.4"
definition DESCRIPTION_MATCH :: real where "DESCRIPTION_MATCH = 0.2"
definition METADATA_MATCH :: real where "METADATA_MATCH = 0.2"
definition EXACT_MATCH_BONUS :: real where "EXACT_MATCH_BONUS = 0.2"
definition BRAND_MATCH_BONUS :: real where "BRAND_MATCH_BONUS = 0.1"
definition MODEL_MATCH_BONUS :: real where "MODEL_MATCH_BONUS = 0.1"

definition MAX_RESULTS :: int where "MAX_RESULTS = 100"
definition DEFAULT_RESULTS :: int where "DEFAULT_RESULTS = 50"
definition FUZZY_THRESHOLD :: int where "FUZZY_THRESHOLD = 2"
definition MIN_STOCK_FOR_BOOST :: real where "MIN_STOCK_FOR_BOOST = 1"

text \<open>
  \<^verbatim>\<open>const c = keywords.filter((k) => text.includes(k)).length;
  if (c > 0) score += weight * (c / keywords.length);\<close>
\<close>

definition overlapScore :: "real \<Rightarrow> string \<Rightarrow> string list \<Rightarrow> real" where
  "overlapScore weight text keywords =
     (let c = length (filter (\<lambda>k. includes_str text k) keywords)
      in if 0 < c then weight * (real c / real (length keywords)) else 0)"

definition calculateFuzzyMatch :: "product \<Rightarrow> string list \<Rightarrow> real" where
  "calculateFuzzyMatch p keywords =
     (let productText = toLowerCase (searchText p);
          matchScore =
            foldl (\<lambda>score keyword.
                foldl (\<lambda>score' word.
                    if 3 < length word \<and> 3 < length keyword
                    then (let distance = leven word keyword
                          in if distance \<le> FUZZY_THRESHOLD \<and> 0 < distance
                             then score' + (1 - real_of_int distance / real_of_int FUZZY_THRESHOLD)
                                             / real (length keywords)
                             else score')
                    else score')
                  score (splitSpaces productText))
              0 keywords
      in min 1 matchScore)"

definition calculateRelevanceScore :: "product \<Rightarrow> string \<Rightarrow> processedQuery \<Rightarrow> error + real" where
  "calculateRelevanceScore p query pq =
     (let queryLower = toLowerCase query;
          correctedQuery = toLowerCase (corrected pq);
          keywords = filter (\<lambda>k. 2 < length k) (splitSpaces correctedQuery);
          titleLower = toLowerCase (title p);
          s1 = (if includes_str titleLower queryLower then TITLE_MATCH
                else overlapScore TITLE_MATCH titleLower keywords);
          descLower = toLowerCase (description p);
          s2 = s1 + overlapScore DESCRIPTION_MATCH descLower keywords;
          metadataText = toLowerCase (join '' '' (stringValues (metadata p)));
          s3 = s2 + overlapScore METADATA_MATCH metadataText keywords;
          s4 = (if titleLower = queryLower \<or> includes_str titleLower queryLower
                then s3 + EXACT_MATCH_BONUS else s3)
      in bindE (filtersOf pq) (\<lambda>f.
           let s5 = (if truthyStr (brand_f f)
                        \<and> toLowerCase (brand p) = toLowerCase (strOf (brand_f f))
                     then s4 + BRAND_MATCH_BONUS else s4)
           in bindE (if truthyStr (model f)
                     then bindE (lowerOf (orEmpty (mapGet (metadata p) ''model''))) (\<lambda>productModel.
                            Inr (if includes_str productModel (toLowerCase (strOf (model f)))
                                 then s5 + MODEL_MATCH_BONUS else s5))
                     else Inr s5) (\<lambda>s6.
              bindE (if truthyStr (color f)
                     then bindE (lowerOf (orEmpty (mapGet (metadata p) ''color''))) (\<lambda>productColor.
                            Inr (if includes_str productColor (toLowerCase (strOf (color f)))
                                 then s6 + MODEL_MATCH_BONUS else s6))
                     else Inr s6) (\<lambda>s7.
                Inr (min 1 (s7 + calculateFuzzyMatch p keywords * 0.1))))))"

definition calculateQualityScore :: "product \<Rightarrow> real" where
  "calculateQualityScore p =
     (let ratingScore = rating p / 5;
          reviewScore = min 1 (reviewCount p / 10000);
          returnScore = 1 - returnRate p;
          complaintScore = 1 - min 1 (complaintCount p / 1000);
          stockScore = (if 0 < stock p then 1 else 0)
      in min 1 (ratingScore * 0.3 + reviewScore * 0.2 + returnScore * 0.2
                  + complaintScore * 0.1 + stockScore * 0.2))"

definition calculatePopularityScore :: "product \<Rightarrow> real" where
  "calculatePopularityScore p =
     (let unitsScore = min 1 (unitsSold p / 100000);
          discountScore = min 1 (discountPercentage p / 50);
          latestScore = (if isLatest p then 1 else 0)
      in min 1 (unitsScore * 0.4 + discountScore * 0.3 + latestScore * 0.3))"

text \<open>
  \<^verbatim>\<open>if (intent.filterBy.color && product.metadata.color) {
      const productColor = product.metadata.color.toLowerCase(); ... }\<close>
\<close>

definition attributeBoost :: "string option \<Rightarrow> jsval option \<Rightarrow> error + real" where
  "attributeBoost wanted v =
     (case v of
        None \<Rightarrow> Inr 0
      | Some x \<Rightarrow>
          if truthyStr wanted \<and> truthy x
          then bindE (lowerOf x) (\<lambda>productValue.
                 Inr (if includes_str productValue (toLowerCase (strOf wanted)) then 0.1 else 0))
          else Inr 0)"

definition applySpecialBoosts :: "product \<Rightarrow> processedQuery \<Rightarrow> error + real" where
  "applySpecialBoosts p pq =
     bindE (filtersOf pq) (\<lambda>f.
       let b1 = (case priceRange f of
                   None \<Rightarrow> 0
                 | Some pr \<Rightarrow>
                     (case maxPrice pr of
                        None \<Rightarrow> 0
                      | Some m \<Rightarrow>
                          if m \<noteq> 0 \<and> price p \<le> m
                          then min 0.2 (((m - price p) / m) * 0.2) else 0));
           b2 = (if MIN_STOCK_FOR_BOOST \<le> stock p then b1 + 0.1 else b1);
           b3 = (if sortBy (intent pq) = Some Latest \<and> isLatest p then b2 + 0.15 else b2)
       in bindE (attributeBoost (color f) (mapGet (metadata p) ''color'')) (\<lambda>c.
            bindE (attributeBoost (model f) (mapGet (metadata p) ''model'')) (\<lambda>m.
              Inr (b3 + c + m))))"

definition calculateRankingScore :: "product \<Rightarrow> string \<Rightarrow> processedQuery \<Rightarrow> error + real" where
  "calculateRankingScore p query pq =
     bindE (calculateRelevanceScore p query pq) (\<lambda>relevanceScore.
       let qualityScore = calculateQualityScore p;
           popularityScore = calculatePopularityScore p;
           finalScore = relevanceScore * RELEVANCE + qualityScore * QUALITY
                          + popularityScore * POPULARITY
       in bindE (applySpecialBoosts p pq) (\<lambda>boost.
            Inr (min 1 (max 0 (finalScore + boost)))))"

type_synonym scored = "product \<times> real"

definition byScore :: "scored \<Rightarrow> scored \<Rightarrow> real" where
  "byScore a b = snd b - snd a"

definition byPriceAsc :: "scored \<Rightarrow> scored \<Rightarrow> real" where
  "byPriceAsc a b =
     (if \<bar>snd b - snd a\<bar> < 0.01 then price (fst a) - price (fst b) else snd b - snd a)"

definition byLatest :: "scored \<Rightarrow> scored \<Rightarrow> real" where
  "byLatest a b =
     (if \<bar>snd b - snd a\<bar> < 0.01
      then (if isLatest (fst b) \<and> \<not> isLatest (fst a) then 1
            else if isLatest (fst a) \<and> \<not> isLatest (fst b) then - 1
            else real_of_int (productId (fst b) - productId (fst a)))
      else snd b - snd a)"

definition byRating :: "scored \<Rightarrow> scored \<Rightarrow> real" where
  "byRating a b =
     (if \<bar>snd b - snd a\<bar> < 0.01 then rating (fst b) - rating (fst a) else snd b - snd a)"

definition rankProducts :: "product list \<Rightarrow> string \<Rightarrow> processedQuery \<Rightarrow> error + product list" where
  "rankProducts ps query pq =
     bindE (mapE (\<lambda>p. bindE (calculateRankingScore p query pq) (\<lambda>score. Inr (p, score))) ps)
       (\<lambda>productsWithScores.
          let sorted = arraySort byScore productsWithScores;
              resorted =
                (case sortBy (intent pq) of
                   Some PriceAsc \<Rightarrow> arraySort byPriceAsc sorted
                 | Some Latest \<Rightarrow> arraySort byLatest sorted
                 | Some Rating \<Rightarrow> arraySort byRating sorted
                 | None \<Rightarrow> sorted)
          in Inr (map fst resorted))"

section \<open>SearchService\<close>

text \<open>\<^verbatim>\<open>ps.forEach((p) => matches.add(p.productId))\<close>\<close>

definition addAll :: "int list \<Rightarrow> product list \<Rightarrow> int list" where
  "addAll matches ps = foldl (\<lambda>m p. setAdd m (productId p)) matches ps"

definition categoryKeywords :: "string list" where
  "categoryKeywords = [''phone'', ''mobile'', ''laptop'', ''headphone'', ''charger'', ''cover'',
     ''case'']"

definition hasFuzzyMatch :: "product \<Rightarrow> string list \<Rightarrow> bool" where
  "hasFuzzyMatch p keywords =
     (let productText = toLowerCase (searchText p)
      in list_ex (\<lambda>keyword.
             list_ex (\<lambda>word. 3 < length word \<and> 3 < length keyword
                              \<and> leven word keyword \<le> FUZZY_THRESHOLD)
               (splitSpaces productText))
           keywords)"

definition findMatchingProducts :: "catalog \<Rightarrow> string \<Rightarrow> processedQuery \<Rightarrow> error + product list" where
  "findMatchingProducts st query pq =
     (let queryLower = trim (toLowerCase query);
          correctedQuery = toLowerCase (corrected pq);
          keywords = filter isKeyword (splitSpaces correctedQuery);
          allProducts = getAllProductsUnpaginated st;
          m1 = foldl (\<lambda>m p.
                   if includes_str (toLowerCase (title p)) queryLower
                      \<or> includes_str (toLowerCase (description p)) queryLower
                   then setAdd m (productId p)
                   else if keywords \<noteq> []
                           \<and> list_all (\<lambda>keyword. includes_str (toLowerCase (searchText p)) keyword)
                                keywords
                   then setAdd m (productId p)
                   else m)
                 [] allProducts;
          m2 = foldl (\<lambda>m keyword. addAll m (getProductsByKeyword st keyword)) m1 keywords
      in bindE (filtersOf pq) (\<lambda>f.
           let m3 = (if truthyStr (brand_f f)
                     then addAll m2 (getProductsByBrand st (strOf (brand_f f))) else m2);
               m4 = (if list_ex (\<lambda>cat. includes_str queryLower cat) categoryKeywords
                     then addAll m3 (getProductsByCategory st ''mobile'') else m3);
               m5 = (if length m4 = 0 \<or> length m4 < 10
                     then foldl (\<lambda>m p. if hasFuzzyMatch p keywords then setAdd m (productId p)
                                        else m)
                            m4 allProducts
                     else m4)
           in Inr (List.map_filter (getProduct st) m5)))"

text \<open>\<^verbatim>\<open>product.metadata.model || product.title || ""\<close>\<close>

definition modelOrTitle :: "product \<Rightarrow> jsval" where
  "modelOrTitle p =
     (case mapGet (metadata p) ''model'' of
        None \<Rightarrow> JString (title p)
      | Some x \<Rightarrow> if truthy x then x else JString (title p))"

definition applyFilters :: "product list \<Rightarrow> processedQuery \<Rightarrow> error + product list" where
  "applyFilters ps pq =
     bindE (filtersOf pq) (\<lambda>f.
       let f1 = (case priceRange f of
                   None \<Rightarrow> ps
                 | Some pr \<Rightarrow>
                     filter (\<lambda>p.
                         if truthyNum (maxPrice pr) \<and> the (maxPrice pr) < price p then False
                         else if truthyNum (minPrice pr) \<and> price p < the (minPrice pr) then False
                         else True)
                       ps)
       in bindE (if truthyStr (color f)
                 then filterE (\<lambda>p.
                        bindE (lowerOf (orEmpty (mapGet (metadata p) ''color''))) (\<lambda>productColor.
                          Inr (includes_str productColor (toLowerCase (strOf (color f))))))
                      f1
                 else Inr f1) (\<lambda>f2.
          bindE (if truthyStr (model f)
                 then filterE (\<lambda>p.
                        bindE (lowerOf (modelOrTitle p)) (\<lambda>productModel.
                          Inr (includes_str productModel (toLowerCase (strOf (model f))))))
                      f2
                 else Inr f2) (\<lambda>f3.
            Inr (if truthyStr (brand_f f)
                 then filter (\<lambda>p. toLowerCase (brand p) = toLowerCase (strOf (brand_f f))) f3
                 else f3))))"

text \<open>
  \<open>searchProductsByText\<close> of the product service, the fallback of the search. The
  last step looks every id up again; an id without a product would give
  \<^verbatim>\<open>undefined\<close>.
\<close>

definition searchProductsByText :: "catalog \<Rightarrow> string \<Rightarrow> product option list" where
  "searchProductsByText st text =
     (let keywords = filter isKeyword (splitSpaces (toLowerCase text));
          productSets = map (getProductsByKeyword st) keywords
      in (case productSets of
            [] \<Rightarrow> []
          | first # others \<Rightarrow>
              (let resultSet =
                     foldl (\<lambda>r ps. filter (\<lambda>i. i \<in> set (addAll [] ps)) r) (addAll [] first) others;
                   resultSet' = (if length resultSet = 0 then foldl addAll [] productSets
                                 else resultSet)
               in map (\<lambda>i. mapGet (products st) i) resultSet')))"

text \<open>\<^verbatim>\<open>xs.slice(0, end)\<close> for an integer end: a negative end counts from the back.\<close>

definition sliceTo :: "'a list \<Rightarrow> int \<Rightarrow> 'a list" where
  "sliceTo xs e =
     (if e < 0 then take (nat (max (int (length xs) + e) 0)) xs else take (nat e) xs)"

text \<open>
  \<open>searchProducts\<close>. The query may be missing (\<open>None\<close>); a missing limit is the
  default. An \<^verbatim>\<open>undefined\<close> among the products of the fallback raises at the first
  read of one of its fields, in the stages that follow.
\<close>

definition searchProducts :: "catalog \<Rightarrow> string option \<Rightarrow> int option \<Rightarrow> error + product list" where
  "searchProducts st q requested =
     (let limit = (case requested of None \<Rightarrow> DEFAULT_RESULTS | Some l \<Rightarrow> l)
      in case q of
           None \<Rightarrow> Inr []
         | Some query \<Rightarrow>
             if query = [] \<or> length (trim query) = 0 then Inr []
             else
               (let processedQuery = processQuery query
                in bindE (findMatchingProducts st query processedQuery) (\<lambda>found.
                     bindE (if length found = 0
                            then (let words = filter isKeyword
                                                (splitSpaces (corrected processedQuery))
                                  in if 0 < length words
                                     then (case those (searchProductsByText st (join '' '' words)) of
                                             None \<Rightarrow> Inl TypeError
                                           | Some ps \<Rightarrow> Inr ps)
                                     else Inr found)
                            else Inr found) (\<lambda>candidates.
                       bindE (applyFilters candidates processedQuery) (\<lambda>filtered.
                         bindE (rankProducts filtered query processedQuery) (\<lambda>ranked.
                           Inr (sliceTo ranked (min limit MAX_RESULTS))))))))"

section \<open>Metadata that the ranking can read\<close>

text \<open>
  The ranking and the filters call \<^verbatim>\<open>toLowerCase\<close> on the \<open>model\<close> and the \<open>color\<close>
  of the metadata of a product, when the intent names a model or a colour. The
  call succeeds on a string, and is not reached for a value that is missing or
  falsy.
\<close>

fun isString :: "jsval \<Rightarrow> bool" where
  "isString (JString s) = True"
| "isString v = False"

definition lowerable :: "jsval option \<Rightarrow> bool" where
  "lowerable v = (case v of None \<Rightarrow> True | Some x \<Rightarrow> isString x \<or> \<not> truthy x)"

definition rankable :: "filterBy \<Rightarrow> product \<Rightarrow> bool" where
  "rankable f p =
     ((\<not> truthyStr (model f) \<or> lowerable (mapGet (metadata p) ''model''))
      \<and> (\<not> truthyStr (color f) \<or> lowerable (mapGet (metadata p) ''color'')))"

section \<open>Sample data\<close>

definition noData :: productData where
  "noData = \<lparr> d_productId = None, d_title = None, d_description = None, d_brand = None,
     d_category = None, d_price = None, d_mrp = None, d_sellingPrice = None, d_rating = None,
     d_stock = None, d_metadata = None, d_unitsSold = None, d_returnRate = None,
     d_reviewCount = None, d_complaintCount = None, d_discountPercentage = None,
     d_isLatest = None \<rparr>"

definition redPhone :: productData where
  "redPhone = noData\<lparr> d_title := Some ''Phone X'', d_price := Some 100,
     d_metadata := Some [(''color'', JString ''Red'')] \<rparr>"

text \<open>
  Four tablets that differ in price and in the number of reviews, the catalog
  that holds them, and the two processed queries used with them.
\<close>

definition tablet :: "string \<Rightarrow> real \<Rightarrow> real \<Rightarrow> productData" where
  "tablet t pr rc = noData\<lparr> d_title := Some t, d_price := Some pr, d_reviewCount := Some rc \<rparr>"

definition pX :: product where "pX = newProduct 1 (tablet ''Tablet X'' 10000 0)"
definition pY :: product where "pY = newProduct 2 (tablet ''Tablet Y'' 20000 1200)"
definition pQ :: product where "pQ = newProduct 3 (tablet ''Tablet Q'' 40000 1050)"
definition pZ :: product where "pZ = newProduct 4 (tablet ''Tablet Z'' 30000 2550)"

definition fourTablets :: catalog where
  "fourTablets =
     fst (addProduct (fst (addProduct (fst (addProduct (fst (addProduct emptyCatalog
       (tablet ''Tablet X'' 10000 0))) (tablet ''Tablet Y'' 20000 1200)))
       (tablet ''Tablet Q'' 40000 1050))) (tablet ''Tablet Z'' 30000 2550))"

definition cheapTablet :: processedQuery where
  "cheapTablet = \<lparr> original = ''cheap tablet'', normalized = ''cheap tablet'',
     corrected = ''cheap tablet'',
     intent = \<lparr> sortBy = Some PriceAsc,
       filterBy = Some \<lparr> color = None, model = None, brand_f = None, priceRange = None \<rparr>,
       searchTerms = [''tablet''] \<rparr> \<rparr>"

definition under25k :: processedQuery where
  "under25k = \<lparr> original = ''tablet under 25k'', normalized = ''tablet under 25k'',
     corrected = ''tablet under 25k'',
     intent = \<lparr> sortBy = None,
       filterBy = Some \<lparr> color = None, model = None, brand_f = None,
         priceRange = Some \<lparr> minPrice = None, maxPrice = Some 25000 \<rparr> \<rparr>,
       searchTerms = [''tablet'', ''25k''] \<rparr> \<rparr>"

text \<open>
  A catalog with one tablet whose metadata was updated with a number for the
  colour, as the validation of the metadata route admits (any object).
\<close>

definition numericColour :: catalog where
  "numericColour =
     fst (updateProductMetadata (fst (addProduct emptyCatalog (tablet ''Tablet X'' 10000 0))) 1
            [(''color'', JNumber 5)])"

section \<open>Verified properties\<close>

subsection \<open>Price range\<close>

lemma priceOfMatch_minPrice: "minPrice (priceOfMatch pr m) = minPrice pr"
  by (simp add: priceOfMatch_def Let_def split: option.splits)

lemma foldl_priceOfMatch_minPrice: "minPrice (foldl priceOfMatch pr ms) = minPrice pr"
  by (induction ms arbitrary: pr) (simp_all add: priceOfMatch_minPrice)

lemma foldl_patterns_minPrice:
  "minPrice (foldl (\<lambda>pr pattern. foldl priceOfMatch pr (matchAll pattern query)) pr ps)
     = minPrice pr"
  by (induction ps arbitrary: pr) (simp_all add: foldl_priceOfMatch_minPrice)

lemma extractPriceRange_minPrice: "minPrice (extractPriceRange query) = None"
  by (simp add: extractPriceRange_def foldl_patterns_minPrice)

text \<open>
  C7. Price-intent extraction never sets a minimum price: the \<open>minPrice\<close> of the
  extracted range is \<^verbatim>\<open>null\<close> for every query string, and so is the \<open>minPrice\<close> of
  the price range that \<open>extractIntent\<close> and \<open>processQuery\<close> file under the filters
  of the intent, whenever they file one.
\<close>

theorem minPrice_never_set:
  "minPrice (extractPriceRange query) = None
   \<and> Option.bind (Option.bind (filterBy (extractIntent query)) priceRange) minPrice = None
   \<and> Option.bind (Option.bind (filterBy (intent (processQuery query))) priceRange) minPrice = None"
  by (simp add: extractIntent_def processQuery_def Let_def extractPriceRange_minPrice)

theorem minPrice_never_set_witness:
  "maxPrice (extractPriceRange ''iphone 50k rupees'') = Some 50000
   \<and> minPrice (extractPriceRange ''iphone 50k rupees'') = None
   \<and> Option.bind (Option.bind (filterBy (extractIntent ''iphone 50k rupees'')) priceRange) minPrice
       = None
   \<and> Option.bind (Option.bind (filterBy (intent (processQuery ''iphone 50k rupees''))) priceRange)
       minPrice = None"
proof -
  have a: "maxPrice (extractPriceRange ''iphone 50k rupees'') = Some 50000"
    by code_simp
  show ?thesis
    using a minPrice_never_set [of "''iphone 50k rupees''"] by simp
qed

text \<open>
  C2. The specification multiplies a number tagged "lakh" by 100000. In the
  source the test for the thousand multiplier is \<^verbatim>\<open>match.includes("k")\<close>, and
  "lakh" contains a "k": the query "5 lakh" gets the ceiling 5000. The tag "lac",
  without a "k", gets 500000.
\<close>

theorem lakh_taken_as_thousand:
  "maxPrice (extractPriceRange ''5 lakh'') = Some 5000
   \<and> maxPrice (extractPriceRange ''5 lac'') = Some 500000"
  by code_simp

subsection \<open>Spelling correction\<close>

lemma firstClose_find:
  "firstClose word ts = find (\<lambda>t. 3 < length word \<and> 0 < leven word t \<and> leven word t \<le> 2) ts"
  by (induction ts) (auto simp: Let_def)

lemma find_append_first:
  "find P (xs @ ys) = (case find P xs of Some x \<Rightarrow> Some x | None \<Rightarrow> find P ys)"
  by (induction xs) simp_all

lemma correctWord_find:
  "correctWord word =
     (case find (\<lambda>t. 3 < length word \<and> 0 < leven word t \<and> leven word t \<le> 2)
             (brands @ productTerms) of
        Some t \<Rightarrow> t
      | None \<Rightarrow> word)"
  by (simp add: correctWord_def firstClose_find find_append_first split: option.splits)

text \<open>
  What \<open>correctSpelling\<close> does: the text that the dictionary of known mistakes
  leaves is cut into words at white space, and every word of it, whether the
  dictionary wrote it or not, goes through the two vocabulary loops.
\<close>

lemma correctSpelling_words:
  "correctSpelling query =
     join '' ''
       (map (\<lambda>word.
               case find (\<lambda>t. 3 < length word \<and> 0 < leven word t \<and> leven word t \<le> 2)
                      (brands @ productTerms) of
                 Some t \<Rightarrow> t
               | None \<Rightarrow> word)
          (splitSpaces (knownCorrections query)))"
  unfolding correctSpelling_def
  by (rule arg_cong [where f = "join '' ''"], rule map_cong) (simp_all add: correctWord_find)

text \<open>
  C6. The claim applies the edit-distance rule to the words that remain after
  the dictionary substitutions and leaves every other word unchanged. The source
  runs the vocabulary loops over the words that the dictionary has just written
  as well: the dictionary turns "ifone" into "iphone", the brand loop passes it
  by (distance 0 to "iphone"), and the product-term loop replaces it by "phone"
  (distance 1). The query "ifone 16" becomes "phone 16", where the specification
  corrects it to "iphone 16"; a correctly spelt "iphone" is rewritten the same
  way.
\<close>

theorem dictionary_word_rewritten_again:
  "knownCorrections ''ifone 16'' = ''iphone 16''
   \<and> correctSpelling ''ifone 16'' = ''phone 16''
   \<and> correctSpelling ''iphone 16'' = ''phone 16''
   \<and> corrected (processQuery ''Ifone 16'') = ''phone 16''"
  by code_simp

subsection \<open>Indexes\<close>

text \<open>
  C1. On the catalog that holds the one product \<open>redPhone\<close> the indexes mirror
  the product after the insertion, and no live product is left out of step by
  the deletion. They do not mirror it after an update of the metadata:
  \<open>updateProductMetadata\<close> recomputes the keywords of the product before it calls
  \<open>removeFromIndexes\<close>, which therefore removes the id from the new keywords and
  leaves it under the old ones. The product added with the colour "Red" and
  updated to the colour "blue" is still filed under the keyword "red", and the
  keyword lookup for "red" still returns it.
\<close>

theorem stale_keyword_after_metadata_update:
  "indexesMirror (fst (addProduct emptyCatalog redPhone))
   \<and> indexesMirror (fst (deleteProduct (fst (addProduct emptyCatalog redPhone)) 1))
   \<and> \<not> indexesMirror
        (fst (updateProductMetadata (fst (addProduct emptyCatalog redPhone)) 1
               [(''color'', JString ''blue'')]))
   \<and> map searchKeywords
        (getProductsByKeyword
          (fst (updateProductMetadata (fst (addProduct emptyCatalog redPhone)) 1
                 [(''color'', JString ''blue'')])) ''red'')
       = [[''phone'', ''unknown'', ''mobile'', ''blue'']]"
  by code_simp

subsection \<open>Sorting\<close>

lemma mset_take_drop: "mset (take n xs) + mset (drop n xs) = mset xs"
  by (metis append_take_drop_id mset_append)

lemma mset_insertPivot: "mset (insertPivot cmp xs p) = add_mset p (mset xs)"
proof -
  have "mset (take k xs @ p # drop k xs) = add_mset p (mset (take k xs) + mset (drop k xs))" for k
    by simp
  then show ?thesis
    by (simp only: insertPivot_def Let_def mset_take_drop)
qed

lemma mset_foldl_insertPivot: "mset (foldl (insertPivot cmp) run rest) = mset run + mset rest"
  by (induction rest arbitrary: run) (simp_all add: mset_insertPivot)

lemma mset_countAndMakeRun: "mset (fst (countAndMakeRun cmp xs)) + mset (snd (countAndMakeRun cmp xs)) = mset xs"
  by (induction cmp xs rule: countAndMakeRun.induct) (simp_all add: Let_def mset_take_drop)

lemma mset_arraySort: "mset (arraySort cmp xs) = mset xs"
  by (simp add: arraySort_def case_prod_beta mset_foldl_insertPivot mset_countAndMakeRun)




declare binarySearch.simps [simp del]







subsection \<open>Errors\<close>

lemma bindE_left: "bindE (Inr x) f = f x"
  by (simp add: bindE_def)

lemma bindE_Inr: "bindE m f = Inr y \<longleftrightarrow> (\<exists>x. m = Inr x \<and> f x = Inr y)"
  by (cases m) (simp_all add: bindE_def)


lemma bindE_total:
  "\<exists>x. m = Inr x \<Longrightarrow> (\<And>x. \<exists>y. k x = Inr y) \<Longrightarrow> \<exists>y. bindE m k = Inr y"
  by (auto simp: bindE_def)

lemma guarded_total:
  "(c \<Longrightarrow> \<exists>s. m = Inr s) \<Longrightarrow> \<exists>r. (if c then bindE m (\<lambda>x. Inr (g x)) else Inr d) = Inr r"
  by (cases c) (auto simp: bindE_def)

lemma mapE_scores:
  "mapE (\<lambda>p. bindE (g p) (\<lambda>s. Inr (p, s))) ps = Inr xs
   \<Longrightarrow> map fst xs = ps \<and> (\<forall>x\<in>set xs. g (fst x) = Inr (snd x))"
proof (induction ps arbitrary: xs)
  case Nil
  then show ?case by simp
next
  case (Cons p ps)
  from Cons.prems obtain s ys where
    s: "g p = Inr s" and ys: "mapE (\<lambda>p. bindE (g p) (\<lambda>s. Inr (p, s))) ps = Inr ys"
    and xs: "xs = (p, s) # ys"
    by (auto simp: bindE_Inr)
  from Cons.IH [OF ys] s xs show ?case by simp
qed

lemma mapE_total:
  "(\<And>p. p \<in> set ps \<Longrightarrow> \<exists>y. f p = Inr y) \<Longrightarrow> \<exists>ys. mapE f ps = Inr ys"
proof (induction ps)
  case Nil
  then show ?case by simp
next
  case (Cons p ps)
  obtain y where y: "f p = Inr y" using Cons.prems [of p] by auto
  obtain ys where ys: "mapE f ps = Inr ys" using Cons.IH Cons.prems by auto
  show ?case using y ys by (simp add: bindE_def)
qed

lemma filterE_subset: "filterE g xs = Inr ys \<Longrightarrow> set ys \<subseteq> set xs"
proof (induction xs arbitrary: ys)
  case Nil
  then show ?case by simp
next
  case (Cons x xs)
  from Cons.prems obtain keep zs where
    zs: "filterE g xs = Inr zs" and ys: "ys = (if keep then x # zs else zs)"
    by (auto simp: bindE_Inr)
  from Cons.IH [OF zs] ys show ?case by auto
qed

subsection \<open>The sample catalog, evaluated\<close>


lemma score_pX: "calculateRankingScore pX ''cheap tablet'' cheapTablet = Inr (19 / 100)"
  by code_simp
lemma score_pY: "calculateRankingScore pY ''cheap tablet'' cheapTablet = Inr (493 / 2500)"
  by code_simp
lemma score_pQ: "calculateRankingScore pQ ''cheap tablet'' cheapTablet = Inr (1963 / 10000)"
  by code_simp
lemma score_pZ: "calculateRankingScore pZ ''cheap tablet'' cheapTablet = Inr (2053 / 10000)"
  by code_simp

lemma prices: "price pX = 10000" "price pY = 20000" "price pQ = 40000" "price pZ = 30000"
  by code_simp+

lemma sort_by_score:
  "arraySort byScore [(pX, 19 / 100), (pY, 493 / 2500), (pQ, 1963 / 10000), (pZ, 2053 / 10000)]
     = [(pZ, 2053 / 10000), (pY, 493 / 2500), (pQ, 1963 / 10000), (pX, 19 / 100)]"
  by (simp add: arraySort_def insertPivot_def byScore_def binarySearch.simps Let_def)

lemma sort_by_price:
  "arraySort byPriceAsc [(pZ, 2053 / 10000), (pY, 493 / 2500), (pQ, 1963 / 10000), (pX, 19 / 100)]
     = [(pY, 493 / 2500), (pZ, 2053 / 10000), (pX, 19 / 100), (pQ, 1963 / 10000)]"
  by (simp add: arraySort_def insertPivot_def byPriceAsc_def binarySearch.simps Let_def prices)

lemma sortBy_cheapTablet: "sortBy (intent cheapTablet) = Some PriceAsc"
  by (simp add: cheapTablet_def)

lemma rank_cheapTablet:
  "rankProducts [pX, pY, pQ, pZ] ''cheap tablet'' cheapTablet = Inr [pY, pZ, pX, pQ]"
  by (simp add: rankProducts_def score_pX score_pY score_pQ score_pZ bindE_left
        sort_by_score sort_by_price sortBy_cheapTablet)





lemma processQuery_under25k: "processQuery ''tablet under 25k'' = under25k"
  by code_simp

lemma filter_under25k: "applyFilters [pX, pY, pQ, pZ] under25k = Inr [pX, pY]"
  by code_simp

lemma filterBy_under25k:
  "filterBy (intent under25k)
     = Some \<lparr> color = None, model = None, brand_f = None,
         priceRange = Some \<lparr> minPrice = None, maxPrice = Some 25000 \<rparr> \<rparr>"
  by (simp add: under25k_def)

subsection \<open>Ranking\<close>

lemma rankProducts_Inr:
  assumes "rankProducts ps query pq = Inr out"
  obtains xs resorted where
    "mapE (\<lambda>p. bindE (calculateRankingScore p query pq) (\<lambda>score. Inr (p, score))) ps = Inr xs"
    and "out = map fst resorted"
    and "mset resorted = mset xs"
    and "sortBy (intent pq) = Some PriceAsc
         \<longrightarrow> resorted = arraySort byPriceAsc (arraySort byScore xs)"
proof -
  define resort where "resort = (\<lambda>xs :: scored list.
     case sortBy (intent pq) of
       Some PriceAsc \<Rightarrow> arraySort byPriceAsc (arraySort byScore xs)
     | Some Latest \<Rightarrow> arraySort byLatest (arraySort byScore xs)
     | Some Rating \<Rightarrow> arraySort byRating (arraySort byScore xs)
     | None \<Rightarrow> arraySort byScore xs)"
  have "rankProducts ps query pq =
     bindE (mapE (\<lambda>p. bindE (calculateRankingScore p query pq) (\<lambda>score. Inr (p, score))) ps)
       (\<lambda>xs. Inr (map fst (resort xs)))"
    by (simp only: rankProducts_def Let_def resort_def)
  with assms obtain xs where
    xs: "mapE (\<lambda>p. bindE (calculateRankingScore p query pq) (\<lambda>score. Inr (p, score))) ps = Inr xs"
    and out: "out = map fst (resort xs)"
    by (auto simp: bindE_Inr)
  have perm: "mset (resort xs) = mset xs"
    by (simp add: resort_def mset_arraySort split: option.splits sortKind.splits)
  have re: "sortBy (intent pq) = Some PriceAsc
         \<longrightarrow> resort xs = arraySort byPriceAsc (arraySort byScore xs)"
    by (simp add: resort_def)
  show ?thesis
    by (rule that [OF xs out perm re])
qed

lemma rankProducts_mset:
  assumes "rankProducts ps query pq = Inr out"
  shows "mset out = mset ps"
proof -
  from assms obtain xs resorted where
    xs: "mapE (\<lambda>p. bindE (calculateRankingScore p query pq) (\<lambda>score. Inr (p, score))) ps = Inr xs"
    and out: "out = map fst resorted" and perm: "mset resorted = mset xs"
    by (rule rankProducts_Inr)
  have "mset out = image_mset fst (mset resorted)" by (simp add: out)
  also have "\<dots> = mset (map fst xs)" by (simp add: perm)
  also have "\<dots> = mset ps" using mapE_scores [OF xs] by simp
  finally show ?thesis .
qed

lemma lowerOf_lowerable: "lowerable v \<Longrightarrow> \<exists>s. lowerOf (orEmpty v) = Inr s"
  by (cases v; cases "the v") (auto simp: lowerable_def orEmpty_def)

lemma attributeBoost_total:
  "\<not> truthyStr wanted \<or> lowerable v \<Longrightarrow> \<exists>r. attributeBoost wanted v = Inr r"
  by (cases v; cases "the v") (auto simp: attributeBoost_def lowerable_def bindE_def)

lemma calculateRelevanceScore_total:
  assumes "filterBy (intent pq) = Some f" "rankable f p"
  shows "\<exists>r. calculateRelevanceScore p query pq = Inr r"
proof -
  have fo: "filtersOf pq = Inr f" by (simp add: filtersOf_def assms(1))
  have m: "truthyStr (model f) \<Longrightarrow> \<exists>s. lowerOf (orEmpty (mapGet (metadata p) ''model'')) = Inr s"
    using assms(2) by (auto simp: rankable_def intro: lowerOf_lowerable)
  have c: "truthyStr (color f) \<Longrightarrow> \<exists>s. lowerOf (orEmpty (mapGet (metadata p) ''color'')) = Inr s"
    using assms(2) by (auto simp: rankable_def intro: lowerOf_lowerable)
  show ?thesis
    unfolding calculateRelevanceScore_def Let_def fo bindE_left
    apply (rule bindE_total)
     apply (rule guarded_total)
     apply (rule m)
     apply assumption
    apply (rule bindE_total)
     apply (rule guarded_total)
     apply (rule c)
     apply assumption
    apply simp
    done
qed

lemma applySpecialBoosts_total:
  assumes "filterBy (intent pq) = Some f" "rankable f p"
  shows "\<exists>r. applySpecialBoosts p pq = Inr r"
proof -
  obtain c where c: "attributeBoost (color f) (mapGet (metadata p) ''color'') = Inr c"
    using assms(2) attributeBoost_total [of "color f"] by (auto simp: rankable_def)
  obtain m where m: "attributeBoost (model f) (mapGet (metadata p) ''model'') = Inr m"
    using assms(2) attributeBoost_total [of "model f"] by (auto simp: rankable_def)
  show ?thesis
    using c m assms(1) by (simp add: applySpecialBoosts_def filtersOf_def bindE_def Let_def)
qed

lemma calculateRankingScore_total:
  assumes "filterBy (intent pq) = Some f" "rankable f p"
  shows "\<exists>r. calculateRankingScore p query pq = Inr r"
proof -
  obtain r where r: "calculateRelevanceScore p query pq = Inr r"
    using calculateRelevanceScore_total [OF assms] by auto
  obtain b where b: "applySpecialBoosts p pq = Inr b"
    using applySpecialBoosts_total [OF assms] by auto
  show ?thesis using r b by (simp add: calculateRankingScore_def bindE_def Let_def)
qed

lemma rankProducts_total:
  assumes "filterBy (intent pq) = Some f" "list_all (rankable f) ps"
  shows "\<exists>out. rankProducts ps query pq = Inr out"
proof -
  have "\<exists>ys. mapE (\<lambda>p. bindE (calculateRankingScore p query pq) (\<lambda>score. Inr (p, score))) ps = Inr ys"
  proof (rule mapE_total)
    fix p assume "p \<in> set ps"
    then have "rankable f p" using assms(2) by (simp add: list_all_iff)
    then obtain r where "calculateRankingScore p query pq = Inr r"
      using calculateRankingScore_total [OF assms(1)] by blast
    then show "\<exists>y. bindE (calculateRankingScore p query pq) (\<lambda>score. Inr (p, score)) = Inr y"
      by (simp add: bindE_def)
  qed
  then show ?thesis by (auto simp: rankProducts_def bindE_def Let_def)
qed

text \<open>
  C10. The ranking returns a permutation of its input: whenever \<open>rankProducts\<close>
  returns a list, the list has the same multiset of products as the candidates,
  and it does return one whenever the intent carries its filters and the
  metadata of every candidate can be read (\<open>rankable\<close>: where the intent names a
  model or a colour, the value of the product is a string, or missing or falsy).
  The two sorts only reorder; this holds for any sort, whatever the length.
\<close>

theorem rankProducts_permutes:
  "(\<forall>out. rankProducts ps query pq = Inr out \<longrightarrow> mset out = mset ps)
   \<and> (\<forall>f. filterBy (intent pq) = Some f \<and> list_all (rankable f) ps
          \<longrightarrow> (\<exists>out. rankProducts ps query pq = Inr out \<and> mset out = mset ps))"
proof (intro conjI allI impI)
  fix out
  assume "rankProducts ps query pq = Inr out"
  then show "mset out = mset ps" by (rule rankProducts_mset)
next
  fix f
  assume a: "filterBy (intent pq) = Some f \<and> list_all (rankable f) ps"
  then obtain out where out: "rankProducts ps query pq = Inr out"
    using rankProducts_total [of pq f ps query] by auto
  then have "mset out = mset ps" by (rule rankProducts_mset)
  with out show "\<exists>out. rankProducts ps query pq = Inr out \<and> mset out = mset ps" by auto
qed

theorem rankProducts_permutes_witness:
  "filterBy (intent cheapTablet)
     = Some \<lparr> color = None, model = None, brand_f = None, priceRange = None \<rparr>
   \<and> list_all (rankable \<lparr> color = None, model = None, brand_f = None, priceRange = None \<rparr>)
         [pX, pY, pQ, pZ]
   \<and> rankProducts [pX, pY, pQ, pZ] ''cheap tablet'' cheapTablet = Inr [pY, pZ, pX, pQ]
   \<and> mset [pY, pZ, pX, pQ] = mset [pX, pY, pQ, pZ]"
proof -
  have f: "filterBy (intent cheapTablet)
     = Some \<lparr> color = None, model = None, brand_f = None, priceRange = None \<rparr>"
    by (simp add: cheapTablet_def)
  have r: "list_all (rankable \<lparr> color = None, model = None, brand_f = None, priceRange = None \<rparr>)
         [pX, pY, pQ, pZ]"
    by (simp add: rankable_def truthyStr_def)
  have "\<forall>out. rankProducts [pX, pY, pQ, pZ] ''cheap tablet'' cheapTablet = Inr out
          \<longrightarrow> mset out = mset [pX, pY, pQ, pZ]"
    using rankProducts_permutes [of "[pX, pY, pQ, pZ]" "''cheap tablet''" cheapTablet]
    by (rule conjunct1)
  then have "rankProducts [pX, pY, pQ, pZ] ''cheap tablet'' cheapTablet = Inr [pY, pZ, pX, pQ]
          \<longrightarrow> mset [pY, pZ, pX, pQ] = mset [pX, pY, pQ, pZ]"
    by (rule spec)
  then have "mset [pY, pZ, pX, pQ] = mset [pX, pY, pQ, pZ]"
    using rank_cheapTablet by (rule mp)
  then show ?thesis
    using f r rank_cheapTablet by (intro conjI)
qed




subsection \<open>Search\<close>

lemma trim_blank: "list_all isSpace s \<Longrightarrow> trim s = []"
proof -
  assume "list_all isSpace s"
  then have "dropWhile isSpace s = []"
    by (induction s) simp_all
  then show ?thesis by (simp only: trim_def rev.simps dropWhile.simps)
qed

text \<open>
  C8. A missing query, the empty query and a query of white space only give the
  empty list of results, and no error, on every catalog and for every limit.
\<close>

theorem blank_query_no_results:
  "(case q of None \<Rightarrow> True | Some s \<Rightarrow> list_all isSpace s)
   \<Longrightarrow> searchProducts st q requested = Inr []"
  by (cases q) (simp_all add: searchProducts_def trim_blank)

theorem blank_query_no_results_witness:
  "list_all isSpace ''  '' \<and> searchProducts fourTablets (Some ''  '') None = Inr []"
proof -
  have b: "list_all isSpace ''  ''" by code_simp
  then have "case Some ''  '' of None \<Rightarrow> True | Some s \<Rightarrow> list_all isSpace s" by simp
  then have "searchProducts fourTablets (Some ''  '') None = Inr []"
    by (rule blank_query_no_results)
  with b show ?thesis by (intro conjI)
qed






text \<open>
  C9. The divisions of the ranking are guarded, and a missing or empty metadata
  value counts as the empty string. A metadata value that is present and is not
  a string is not handled: the filters and the ranking call \<^verbatim>\<open>toLowerCase\<close> on
  the colour and the model of a product, although the product's own search text
  and the metadata score leave out the values that are not strings. With the
  colour of the one tablet set to the number 5, the search for "red tablet"
  raises a \<^verbatim>\<open>TypeError\<close> in the colour filter.
\<close>

theorem numeric_colour_raises:
  "searchProducts numericColour (Some ''red tablet'') None = Inl TypeError"
  by code_simp

subsection \<open>Filter\<close>

lemma applyFilters_price:
  assumes "applyFilters ps pq = Inr out"
    and "filterBy (intent pq) = Some f" "priceRange f = Some pr" "maxPrice pr = Some m"
    and "m \<noteq> 0" and "p \<in> set out"
  shows "price p \<le> m"
proof -
  define f1 where "f1 = filter (\<lambda>p.
                         if truthyNum (maxPrice pr) \<and> the (maxPrice pr) < price p then False
                         else if truthyNum (minPrice pr) \<and> price p < the (minPrice pr) then False
                         else True) ps"
  define colorStep where "colorStep = (\<lambda>xs :: product list.
     if truthyStr (color f)
     then filterE (\<lambda>p.
            bindE (lowerOf (orEmpty (mapGet (metadata p) ''color''))) (\<lambda>productColor.
              Inr (includes_str productColor (toLowerCase (strOf (color f))))))
          xs
     else Inr xs)"
  define modelStep where "modelStep = (\<lambda>xs :: product list.
     if truthyStr (model f)
     then filterE (\<lambda>p.
            bindE (lowerOf (modelOrTitle p)) (\<lambda>productModel.
              Inr (includes_str productModel (toLowerCase (strOf (model f))))))
          xs
     else Inr xs)"
  define brandStep where "brandStep = (\<lambda>xs :: product list.
     if truthyStr (brand_f f)
     then filter (\<lambda>p. toLowerCase (brand p) = toLowerCase (strOf (brand_f f))) xs
     else xs)"
  have fo: "filtersOf pq = Inr f" by (simp add: filtersOf_def assms(2))
  have "applyFilters ps pq =
     bindE (colorStep f1) (\<lambda>f2. bindE (modelStep f2) (\<lambda>f3. Inr (brandStep f3)))"
    by (simp only: applyFilters_def fo bindE_left Let_def assms(3) option.case f1_def
          colorStep_def modelStep_def brandStep_def)
  with assms(1) have e: "bindE (colorStep f1) (\<lambda>f2. bindE (modelStep f2) (\<lambda>f3. Inr (brandStep f3)))
      = Inr out"
    by simp
  from e obtain f2 where 1: "colorStep f1 = Inr f2"
    and 2: "bindE (modelStep f2) (\<lambda>f3. Inr (brandStep f3)) = Inr out"
    unfolding bindE_Inr by blast
  from 2 obtain f3 where 3: "modelStep f2 = Inr f3" and 4: "brandStep f3 = out"
    unfolding bindE_Inr by auto
  have "set f2 \<subseteq> set f1"
    using 1 filterE_subset unfolding colorStep_def by (auto split: if_splits)
  moreover have "set f3 \<subseteq> set f2"
    using 3 filterE_subset unfolding modelStep_def by (auto split: if_splits)
  moreover have "set out \<subseteq> set f3"
    using 4 unfolding brandStep_def by (auto split: if_splits)
  ultimately have "p \<in> set f1" using assms(6) by blast
  then show ?thesis
    using assms(4,5) by (auto simp: f1_def truthyNum_def split: if_splits)
qed

lemma filterBy_extractIntent:
  "\<exists>f. filterBy (extractIntent query) = Some f
      \<and> priceRange f = (if truthyNum (minPrice (extractPriceRange query))
                            \<or> truthyNum (maxPrice (extractPriceRange query))
                         then Some (extractPriceRange query) else None)"
  by (simp add: extractIntent_def Let_def)

lemma processQuery_maxPrice:
  assumes "filterBy (intent (processQuery query)) = Some f" "priceRange f = Some pr"
    "maxPrice pr = Some m"
  shows "m \<noteq> 0"
proof -
  have ne: "query \<noteq> []" using assms(1) by (auto simp: processQuery_def)
  define c where "c = correctSpelling (translateHinglish (normalizeQuery query))"
  have "intent (processQuery query) = extractIntent c"
    using ne by (simp add: processQuery_def Let_def c_def)
  then have f: "filterBy (extractIntent c) = Some f" using assms(1) by simp
  obtain f' where f': "filterBy (extractIntent c) = Some f'"
    and pr': "priceRange f' = (if truthyNum (minPrice (extractPriceRange c))
                            \<or> truthyNum (maxPrice (extractPriceRange c))
                         then Some (extractPriceRange c) else None)"
    using filterBy_extractIntent [of c] by blast
  have "f' = f" using f f' by simp
  then have "pr = extractPriceRange c"
    and "truthyNum (minPrice (extractPriceRange c)) \<or> truthyNum (maxPrice (extractPriceRange c))"
    using pr' assms(2) by (auto split: if_splits)
  then have "truthyNum (maxPrice pr)"
    by (simp add: extractPriceRange_minPrice truthyNum_def)
  then show ?thesis using assms(3) by (simp add: truthyNum_def)
qed

text \<open>
  C5. Every product that the filter stage retains costs at most the maximum of
  the price range, when the intent carries one. The intent is the one that
  \<open>processQuery\<close> extracted from a query, whose maximum is never zero, or any
  intent with a maximum other than zero (the source tests the maximum for
  truthiness, so a maximum of zero would not filter).
\<close>

theorem filtered_price_at_most_max:
  assumes "applyFilters ps pq = Inr out"
    and "filterBy (intent pq) = Some f" "priceRange f = Some pr" "maxPrice pr = Some m"
    and "pq = processQuery query \<or> m \<noteq> 0"
    and "p \<in> set out"
  shows "price p \<le> m"
proof -
  have "m \<noteq> 0" using assms(2-5) processQuery_maxPrice by blast
  then show ?thesis using applyFilters_price assms by blast
qed

theorem filtered_price_at_most_max_witness:
  "applyFilters [pX, pY, pQ, pZ] (processQuery ''tablet under 25k'') = Inr [pX, pY]
   \<and> maxPrice \<lparr> minPrice = None, maxPrice = Some 25000 \<rparr> = Some 25000
   \<and> pY \<in> set [pX, pY]
   \<and> price pY \<le> 25000"
proof -
  have a: "applyFilters [pX, pY, pQ, pZ] (processQuery ''tablet under 25k'') = Inr [pX, pY]"
    by (simp add: processQuery_under25k filter_under25k)
  have f: "filterBy (intent (processQuery ''tablet under 25k''))
     = Some \<lparr> color = None, model = None, brand_f = None,
         priceRange = Some \<lparr> minPrice = None, maxPrice = Some 25000 \<rparr> \<rparr>"
    by (simp add: processQuery_under25k filterBy_under25k)
  have p: "priceRange \<lparr> color = None, model = None, brand_f = None,
         priceRange = Some \<lparr> minPrice = None, maxPrice = Some 25000 \<rparr> \<rparr>
       = Some \<lparr> minPrice = None, maxPrice = Some 25000 \<rparr>"
    by simp
  have m: "maxPrice \<lparr> minPrice = None, maxPrice = Some 25000 \<rparr> = Some 25000"
    by simp
  have q: "processQuery ''tablet under 25k'' = processQuery ''tablet under 25k''
             \<or> (25000 :: real) \<noteq> 0"
    by simp
  have e: "pY \<in> set [pX, pY]" by simp
  have "price pY \<le> 25000"
    by (rule filtered_price_at_most_max [OF a f p m q e])
  with a m e show ?thesis by (intro conjI)
qed

end
